theory Spec2Isabelle
  imports Complex_Main
begin

section \<open>Python values, exceptions and the library\<close>

text \<open>
  The program is \<^verbatim>\<open>recipe_adapter.py\<close>. The entries of the Planner's conversion list are
  declared \<^verbatim>\<open>List[Any]\<close>: each one is an arbitrary value of the kind JSON can carry. A
  dict is an association list with string keys; the first binding of a key is the one the
  dict holds. The type \<open>'f\<close> stands for Python's \<^verbatim>\<open>float\<close>: its arithmetic is a
  parameter of the model (\<open>pylib\<close> below), so nothing proved here depends on how
  floating-point rounds. Strings are byte lists (UTF-8).
\<close>

datatype exn =
    TypeError
  | ValueError
  | AttributeError
  | OverflowError
  | KeyError
  | LibraryError string

datatype 'f pyval =
    PNone
  | PBool bool
  | PInt int
  | PFloat 'f
  | PStr string
  | PList "'f pyval list"
  | PDict "(string \<times> 'f pyval) list"

text \<open>
  What the interpreter and the standard library provide for floats: the value of a float
  literal, float multiplication, and the two conversions of the built-in \<^verbatim>\<open>float()\<close>
  that can raise (\<^verbatim>\<open>OverflowError\<close> for an int too large, \<^verbatim>\<open>ValueError\<close> for
  a string that is no numeral).
\<close>

record 'f pylib =
  float_literal :: "rat \<Rightarrow> 'f"
  float_mul :: "'f \<Rightarrow> 'f \<Rightarrow> 'f"
  float_of_int :: "int \<Rightarrow> exn + 'f"
  float_of_str :: "string \<Rightarrow> exn + 'f"

text \<open>
  Formatted text. An f-string is the list of its pieces: literal characters, and the
  interpolated values, whose \<^verbatim>\<open>str()\<close> rendering is left symbolic (it cannot raise for
  any value here). \<open>Json_dumps_indent2 v\<close> is \<^verbatim>\<open>json.dumps(v, indent=2)\<close>.
\<close>

datatype 'f seg =
    Lit string
  | Fmt "'f pyval"
  | Fmt_float 'f
  | Fmt_exn exn
  | Json_dumps_indent2 "'f pyval"

type_synonym 'f pytext = "'f seg list"

definition nl :: string where
  "nl = [CHR 0x0A]"

definition dquote :: string where
  "dquote = [CHR 0x22]"

text \<open>The pictographs that start some console messages, as their UTF-8 bytes.\<close>

definition gear_sign :: string where
  "gear_sign = [CHR 0xE2, CHR 0x9A, CHR 0x99, CHR 0xEF, CHR 0xB8, CHR 0x8F]"

definition check_mark :: string where
  "check_mark = [CHR 0xE2, CHR 0x9C, CHR 0x85]"

definition cross_mark :: string where
  "cross_mark = [CHR 0xE2, CHR 0x9D, CHR 0x8C]"

definition warning_sign :: string where
  "warning_sign = [CHR 0xE2, CHR 0x9A, CHR 0xA0, CHR 0xEF, CHR 0xB8, CHR 0x8F]"

text \<open>\<^verbatim>\<open>sep.join(lines)\<close>\<close>

fun join :: "'f pytext \<Rightarrow> 'f pytext list \<Rightarrow> 'f pytext" where
  "join sep [] = []"
| "join sep [l] = l"
| "join sep (l # m # ls) = l @ sep @ join sep (m # ls)"

subsection \<open>Operators and built-ins on values\<close>

text \<open>\<^verbatim>\<open>k in s\<close> for two strings: \<open>k\<close> occurs in \<open>s\<close> as a contiguous piece.\<close>

fun is_prefix :: "string \<Rightarrow> string \<Rightarrow> bool" where
  "is_prefix [] s = True"
| "is_prefix (c # k) [] = False"
| "is_prefix (c # k) (d # s) = (c = d \<and> is_prefix k s)"

fun is_substring :: "string \<Rightarrow> string \<Rightarrow> bool" where
  "is_substring k [] = (k = [])"
| "is_substring k (d # s) = (is_prefix k (d # s) \<or> is_substring k s)"

text \<open>
  \<^verbatim>\<open>key in conv\<close> with a string on the left: membership among the keys of a dict, among
  the elements of a list, substring test on a string; \<^verbatim>\<open>TypeError\<close> (argument is not
  iterable) on None, a bool, an int or a float.
\<close>

fun py_in :: "string \<Rightarrow> 'f pyval \<Rightarrow> exn + bool" where
  "py_in k (PDict d) = Inr (k \<in> fst ` set d)"
| "py_in k (PList xs) = Inr (PStr k \<in> set xs)"
| "py_in k (PStr s) = Inr (is_substring k s)"
| "py_in k PNone = Inl TypeError"
| "py_in k (PBool b) = Inl TypeError"
| "py_in k (PInt i) = Inl TypeError"
| "py_in k (PFloat x) = Inl TypeError"

text \<open>
  \<^verbatim>\<open>conv[key]\<close> with a string key: lookup in a dict (\<^verbatim>\<open>KeyError\<close> when absent);
  \<^verbatim>\<open>TypeError\<close> on everything else (a list or a string takes integer indices, the
  rest is not subscriptable).
\<close>

fun py_getitem :: "'f pyval \<Rightarrow> string \<Rightarrow> exn + 'f pyval" where
  "py_getitem (PDict d) k = (case map_of d k of None \<Rightarrow> Inl KeyError | Some v \<Rightarrow> Inr v)"
| "py_getitem (PList xs) k = Inl TypeError"
| "py_getitem (PStr s) k = Inl TypeError"
| "py_getitem PNone k = Inl TypeError"
| "py_getitem (PBool b) k = Inl TypeError"
| "py_getitem (PInt i) k = Inl TypeError"
| "py_getitem (PFloat x) k = Inl TypeError"

text \<open>The built-in \<^verbatim>\<open>float(v)\<close>.\<close>

fun py_float :: "'f pylib \<Rightarrow> 'f pyval \<Rightarrow> exn + 'f" where
  "py_float lib (PFloat x) = Inr x"
| "py_float lib (PInt i) = float_of_int lib i"
| "py_float lib (PBool b) = Inr (float_literal lib (if b then 1 else 0))"
| "py_float lib (PStr s) = float_of_str lib s"
| "py_float lib PNone = Inl TypeError"
| "py_float lib (PList xs) = Inl TypeError"
| "py_float lib (PDict d) = Inl TypeError"

text \<open>
  \<^verbatim>\<open>str.lower\<close>: the letters A to Z become a to z. Bytes outside ASCII are kept; no
  character outside ASCII lowers to one of c, u, p, s, so the test of the tool below is
  the one Python makes.
\<close>

definition lower_char :: "char \<Rightarrow> char" where
  "lower_char c =
     (case map_of (zip ''ABCDEFGHIJKLMNOPQRSTUVWXYZ'' ''abcdefghijklmnopqrstuvwxyz'') c of
        Some d \<Rightarrow> d
      | None \<Rightarrow> c)"

definition str_lower :: "string \<Rightarrow> string" where
  "str_lower s = map lower_char s"

text \<open>\<^verbatim>\<open>unit.lower()\<close>: only a string has the method.\<close>

fun py_lower :: "'f pyval \<Rightarrow> exn + string" where
  "py_lower (PStr s) = Inr (str_lower s)"
| "py_lower PNone = Inl AttributeError"
| "py_lower (PBool b) = Inl AttributeError"
| "py_lower (PInt i) = Inl AttributeError"
| "py_lower (PFloat x) = Inl AttributeError"
| "py_lower (PList xs) = Inl AttributeError"
| "py_lower (PDict d) = Inl AttributeError"


section \<open>Effects: console output, calls to the model client, exceptions\<close>

text \<open>
  A run produces a trace of events (each \<^verbatim>\<open>print\<close> and each call of
  \<^verbatim>\<open>client.models.generate_content\<close>, in order) and ends with a value or with the
  exception it raised. Nothing in the program catches an exception after the client is
  chosen, so the first one ends the run.
\<close>

datatype schema = PlanningResult_schema

datatype config_value = Mime_type string | Response_schema schema

record 'f request =
  model :: string
  contents :: "(string \<times> 'f pytext list) list"
  config :: "(string \<times> config_value) list"

datatype 'f event =
    Print "'f pytext"
  | Generate_content "'f request"

type_synonym ('f, 'a) eff = "'f event list \<times> (exn + 'a)"

definition ret :: "'a \<Rightarrow> ('f, 'a) eff" where
  "ret x = ([], Inr x)"

definition emit :: "'f event \<Rightarrow> ('f, unit) eff" where
  "emit ev = ([ev], Inr ())"

definition lift :: "exn + 'a \<Rightarrow> ('f, 'a) eff" where
  "lift r = ([], r)"

definition bind :: "('f, 'a) eff \<Rightarrow> ('a \<Rightarrow> ('f, 'b) eff) \<Rightarrow> ('f, 'b) eff" where
  "bind m k =
     (case m of
        (t, Inl e) \<Rightarrow> (t, Inl e)
      | (t, Inr x) \<Rightarrow> (case k x of (t', r) \<Rightarrow> (t @ t', r)))"

section \<open>Core data structures\<close>

record Substitution =
  original_ingredient :: string
  substitute :: string
  reason :: string

text \<open>
  \<open>conversion_list\<close> is declared \<^verbatim>\<open>List[Any]\<close>; the workflow tests it with
  \<^verbatim>\<open>isinstance(..., list)\<close> before use, so the field holds a value.
\<close>

record 'f PlanningResult =
  conversion_list :: "'f pyval"
  substitution_map :: "Substitution list"

definition mock_data :: "'f pylib \<Rightarrow> 'f PlanningResult" where
  "mock_data lib =
     \<lparr>conversion_list =
        PList [PDict [(''amount'', PFloat (float_literal lib 2)),
                      (''unit'', PStr ''cups''),
                      (''to_unit'', PStr ''grams'')]],
      substitution_map =
        [\<lparr>original_ingredient = ''Beef chuck'', substitute = ''Firm Tofu'',
          reason = ''Vegetarian protein swap.''\<rparr>,
         \<lparr>original_ingredient = ''Sour cream'', substitute = ''Full-fat Coconut Milk'',
          reason = ''Dairy-free creamy base.''\<rparr>]\<rparr>"

subsection \<open>What pydantic derives from the two class declarations\<close>

text \<open>
  \<^verbatim>\<open>model_dump\<close> gives the dict of the declared fields. \<^verbatim>\<open>model_validate\<close>
  requires every declared field (none has a default), a string for each \<^verbatim>\<open>str\<close>
  field and a list for each \<^verbatim>\<open>List[...]\<close> field; keys that are not fields are
  ignored. The declarations put no other constraint on a field: no minimum length, and
  \<^verbatim>\<open>Any\<close> for the elements of the conversion list.
\<close>

definition Substitution_model_dump :: "Substitution \<Rightarrow> 'f pyval" where
  "Substitution_model_dump s =
     PDict [(''original_ingredient'', PStr (original_ingredient s)),
            (''substitute'', PStr (substitute s)),
            (''reason'', PStr (reason s))]"

fun Substitution_model_validate :: "'f pyval \<Rightarrow> exn + Substitution" where
  "Substitution_model_validate (PDict d) =
     (case (map_of d ''original_ingredient'', map_of d ''substitute'', map_of d ''reason'') of
        (Some (PStr a), Some (PStr b), Some (PStr c)) \<Rightarrow>
          Inr \<lparr>original_ingredient = a, substitute = b, reason = c\<rparr>
      | _ \<Rightarrow> Inl (LibraryError ''ValidationError''))"
| "Substitution_model_validate v = Inl (LibraryError ''ValidationError'')"

fun validate_all :: "'f pyval list \<Rightarrow> exn + Substitution list" where
  "validate_all [] = Inr []"
| "validate_all (v # vs) =
     (case Substitution_model_validate v of
        Inl e \<Rightarrow> Inl e
      | Inr s \<Rightarrow> (case validate_all vs of Inl e \<Rightarrow> Inl e | Inr ss \<Rightarrow> Inr (s # ss)))"

definition PlanningResult_model_dump :: "'f PlanningResult \<Rightarrow> 'f pyval" where
  "PlanningResult_model_dump p =
     PDict [(''conversion_list'', conversion_list p),
            (''substitution_map'', PList (map Substitution_model_dump (substitution_map p)))]"

fun PlanningResult_model_validate :: "'f pyval \<Rightarrow> exn + 'f PlanningResult" where
  "PlanningResult_model_validate (PDict d) =
     (case (map_of d ''conversion_list'', map_of d ''substitution_map'') of
        (Some (PList cl), Some (PList sm)) \<Rightarrow>
          (case validate_all sm of
             Inl e \<Rightarrow> Inl e
           | Inr ss \<Rightarrow> Inr \<lparr>conversion_list = PList cl, substitution_map = ss\<rparr>)
      | _ \<Rightarrow> Inl (LibraryError ''ValidationError''))"
| "PlanningResult_model_validate v = Inl (LibraryError ''ValidationError'')"

section \<open>The model client\<close>

record 'f response =
  response_text :: string
  parsed :: "'f PlanningResult option"

text \<open>
  A client is what \<^verbatim>\<open>client.models.generate_content\<close> does with a request: it returns
  a response or raises. The live client of the provider's library is any such function.
\<close>

type_synonym 'f client = "'f request \<Rightarrow> exn + 'f response"

definition MockModels_generate_content :: "'f pylib \<Rightarrow> 'f request \<Rightarrow> 'f response" where
  "MockModels_generate_content lib kwargs =
     (if ''response_schema'' \<in> fst ` set (config kwargs)
      then \<lparr>response_text = ''[MOCK OUTPUT: Structured Plan Generated]'',
            parsed = Some (mock_data lib)\<rparr>
      else \<lparr>response_text = ''[MOCK OUTPUT: Final Recipe Text]'', parsed = None\<rparr>)"

definition MockClient :: "'f pylib \<Rightarrow> 'f client" where
  "MockClient lib kwargs = Inr (MockModels_generate_content lib kwargs)"

record 'f env =
  client :: "'f client"
  API_MODEL_NAME :: string

definition CONCEPTUAL_MODEL_NAME :: string where
  "CONCEPTUAL_MODEL_NAME = ''AI_Reasoning_Engine_Flash''"

text \<open>
  The module-level initialisation (lines 63 to 77). \<open>API_KEY\<close> is what
  \<^verbatim>\<open>os.environ.get\<close> returned; \<open>genai_Client\<close> is the provider's constructor, which
  returns a client or raises. \<^verbatim>\<open>if API_KEY\<close> is false for None and for the empty string.
\<close>

definition mock_env :: "'f pylib \<Rightarrow> 'f env" where
  "mock_env lib = \<lparr>client = MockClient lib, API_MODEL_NAME = ''MOCK_MODEL''\<rparr>"

definition init_client ::
    "(string \<Rightarrow> exn + 'f client) \<Rightarrow> 'f pylib \<Rightarrow> string option \<Rightarrow> 'f event list \<times> 'f env" where
  "init_client genai_Client lib API_KEY =
     (if API_KEY \<noteq> None \<and> API_KEY \<noteq> Some []
      then
        (case genai_Client (the API_KEY) of
           Inr c \<Rightarrow>
             ([Print [Lit (check_mark @ '' Gemini Client initialized successfully with API Key.'')]],
              \<lparr>client = c, API_MODEL_NAME = ''gemini-2.5-flash''\<rparr>)
         | Inl e \<Rightarrow>
             ([Print [Lit (cross_mark @
                 '' API KEY VALIDATION ERROR. Client failed to initialize. Using Mock Mode. Details: ''),
                 Fmt_exn e]],
              mock_env lib))
      else
        ([Print [Lit (warning_sign @
            '' API Key not found in environment variable '' @ [CHR 0x27] @ ''GEMINI_API_KEY'' @
            [CHR 0x27] @ ''. Using Mock Mode.'')]],
         mock_env lib))"


section \<open>The unit converter tool\<close>

text \<open>
  \<^verbatim>\<open>unit_converter_tool(amount, unit)\<close>. The caller passes \<^verbatim>\<open>conv['unit']\<close> as it
  is, so \<open>unit\<close> is any value; the announcement is printed before \<^verbatim>\<open>unit.lower()\<close>
  is evaluated.
\<close>

definition tool_announcement :: "'f \<Rightarrow> 'f pyval \<Rightarrow> 'f event" where
  "tool_announcement amount unit =
     Print [Lit (gear_sign @ '' TOOL ACTIVATED: Converting ''), Fmt_float amount,
            Lit '' '', Fmt unit, Lit ''...'']"

definition unit_converter_tool :: "'f pylib \<Rightarrow> 'f \<Rightarrow> 'f pyval \<Rightarrow> ('f, 'f) eff" where
  "unit_converter_tool lib amount unit =
     bind (emit (tool_announcement amount unit))
       (\<lambda>_. bind (lift (py_lower unit))
         (\<lambda>u. if u \<in> set [''cups'', ''cup'']
              then ret (float_mul lib amount (float_literal lib 120))
              else ret amount))"

section \<open>Running an agent\<close>

datatype 'f agent_result =
    Structured "'f PlanningResult option"
  | Text_result string

definition generate_content :: "'f client \<Rightarrow> 'f request \<Rightarrow> ('f, 'f response) eff" where
  "generate_content c kwargs = ([Generate_content kwargs], c kwargs)"

text \<open>The keyword arguments that \<^verbatim>\<open>run_agent\<close> builds (lines 98 to 111).\<close>

definition agent_request ::
    "'f env \<Rightarrow> string \<Rightarrow> 'f pytext \<Rightarrow> 'f pytext \<Rightarrow> schema option \<Rightarrow> 'f request" where
  "agent_request e agent_name system_prompt prompt output_schema =
     (let cfg = (case output_schema of
                   Some sch \<Rightarrow> [(''response_mime_type'', Mime_type ''application/json''),
                                (''response_schema'', Response_schema sch)]
                 | None \<Rightarrow> []);
          full_contents =
            [(''user'', [Lit (''SYSTEM ROLE ('' @ agent_name @ ''): '') # system_prompt @
                         Lit (nl @ nl @ ''USER PROMPT:'' @ nl) # prompt])]
      in \<lparr>model = API_MODEL_NAME e, contents = full_contents, config = cfg\<rparr>)"

definition run_agent ::
    "'f env \<Rightarrow> string \<Rightarrow> 'f pytext \<Rightarrow> 'f pytext \<Rightarrow> schema option \<Rightarrow> ('f, 'f agent_result) eff" where
  "run_agent e agent_name system_prompt prompt output_schema =
     bind (generate_content (client e)
             (agent_request e agent_name system_prompt prompt output_schema))
       (\<lambda>response. ret (case output_schema of
                           Some sch \<Rightarrow> Structured (parsed response)
                         | None \<Rightarrow> Text_result (response_text response)))"

section \<open>The workflow\<close>

text \<open>
  Attribute access on what the Planner call returned: \<^verbatim>\<open>AttributeError\<close> when it is
  None (or a string) rather than a PlanningResult.
\<close>

fun get_conversion_list :: "'f agent_result \<Rightarrow> exn + 'f pyval" where
  "get_conversion_list (Structured (Some p)) = Inr (conversion_list p)"
| "get_conversion_list (Structured None) = Inl AttributeError"
| "get_conversion_list (Text_result s) = Inl AttributeError"

fun get_substitution_map :: "'f agent_result \<Rightarrow> exn + Substitution list" where
  "get_substitution_map (Structured (Some p)) = Inr (substitution_map p)"
| "get_substitution_map (Structured None) = Inl AttributeError"
| "get_substitution_map (Text_result s) = Inl AttributeError"

text \<open>Line 141: \<^verbatim>\<open>x if isinstance(x, list) else []\<close>.\<close>

fun list_or_empty :: "'f pyval \<Rightarrow> 'f pyval list" where
  "list_or_empty (PList xs) = xs"
| "list_or_empty v = []"

text \<open>
  Line 144: \<^verbatim>\<open>'amount' in conv and 'unit' in conv and 'to_unit' in conv\<close>, evaluated
  left to right, stopping at the first false test.
\<close>

definition has_all_keys :: "'f pyval \<Rightarrow> exn + bool" where
  "has_all_keys conv =
     (case py_in ''amount'' conv of
        Inl e \<Rightarrow> Inl e
      | Inr b1 \<Rightarrow>
          if \<not> b1 then Inr False
          else (case py_in ''unit'' conv of
                  Inl e \<Rightarrow> Inl e
                | Inr b2 \<Rightarrow> if \<not> b2 then Inr False else py_in ''to_unit'' conv))"

text \<open>Line 145: \<^verbatim>\<open>unit_converter_tool(float(conv['amount']), conv['unit'])\<close>.\<close>

definition converted_amount_of :: "'f pylib \<Rightarrow> 'f pyval \<Rightarrow> ('f, 'f) eff" where
  "converted_amount_of lib conv =
     bind (lift (py_getitem conv ''amount'')) (\<lambda>a.
     bind (lift (py_float lib a)) (\<lambda>amount.
     bind (lift (py_getitem conv ''unit'')) (\<lambda>u.
     unit_converter_tool lib amount u)))"

text \<open>Line 146: the note recorded for a converted entry.\<close>

definition note_text :: "'f pyval \<Rightarrow> 'f pyval \<Rightarrow> 'f \<Rightarrow> 'f pyval \<Rightarrow> 'f pytext" where
  "note_text a u converted_amount t =
     [Lit ''Original: '', Fmt a, Lit '' '', Fmt u, Lit ''. Standardized: '',
      Fmt_float converted_amount, Lit '' '', Fmt t, Lit ''.'']"

definition conversion_note :: "'f pyval \<Rightarrow> 'f \<Rightarrow> ('f, 'f pytext) eff" where
  "conversion_note conv converted_amount =
     bind (lift (py_getitem conv ''amount'')) (\<lambda>a.
     bind (lift (py_getitem conv ''unit'')) (\<lambda>u.
     bind (lift (py_getitem conv ''to_unit'')) (\<lambda>t.
     ret (note_text a u converted_amount t))))"

text \<open>The body of the loop (lines 144 to 146) and the loop (line 143).\<close>

definition convert_entry ::
    "'f pylib \<Rightarrow> 'f pyval \<Rightarrow> 'f pytext list \<Rightarrow> ('f, 'f pytext list) eff" where
  "convert_entry lib conv conversion_results =
     bind (lift (has_all_keys conv)) (\<lambda>b.
       if b then
         bind (converted_amount_of lib conv) (\<lambda>converted_amount.
         bind (conversion_note conv converted_amount) (\<lambda>note.
         ret (conversion_results @ [note])))
       else ret conversion_results)"

fun converting ::
    "'f pylib \<Rightarrow> 'f pyval list \<Rightarrow> 'f pytext list \<Rightarrow> ('f, 'f pytext list) eff" where
  "converting lib [] conversion_results = ret conversion_results"
| "converting lib (conv # rest) conversion_results =
     bind (convert_entry lib conv conversion_results) (\<lambda>rs. converting lib rest rs)"

text \<open>\<^verbatim>\<open>print(final_recipe_draft)\<close>\<close>

fun str_of_result :: "'f agent_result \<Rightarrow> 'f pytext" where
  "str_of_result (Text_result s) = [Lit s]"
| "str_of_result (Structured None) = [Fmt PNone]"
| "str_of_result (Structured (Some p)) = [Fmt (PlanningResult_model_dump p)]"

definition planner_prompt :: "string \<Rightarrow> string \<Rightarrow> 'f pytext" where
  "planner_prompt original_recipe target_style =
     [Lit (nl @ ''    ORIGINAL RECIPE: '' @ dquote @ original_recipe @ dquote @ nl @
           ''    TARGET TRANSFORMATION: '' @ dquote @ target_style @ dquote @ nl @
           ''    Analyze the recipe and generate a comprehensive Substitution Map and a list of necessary Unit Conversions.'' @
           nl @ ''    '')]"

definition planner_system_prompt :: "'f pytext" where
  "planner_system_prompt =
     [Lit (''You are the expert Recipe Planner, powered by the '' @ CONCEPTUAL_MODEL_NAME @
           ''. Your sole job is to identify substitutions to match the target style and output the result in the required JSON schema.'')]"

definition stylist_prompt :: "string \<Rightarrow> 'f pytext \<Rightarrow> 'f pytext \<Rightarrow> string \<Rightarrow> 'f pytext" where
  "stylist_prompt original_recipe substitution_map_str conversion_results_str target_style =
     Lit (nl @ ''    ORIGINAL RECIPE: '' @ original_recipe @ nl @
          ''    SUBSTITUTION MAP (CRITICAL MEMORY): '') # substitution_map_str @
     Lit (nl @ ''    CONVERSION NOTES: '') # conversion_results_str @
     [Lit (nl @ nl @
           ''    Your task is to rewrite the ORIGINAL RECIPE entirely, applying all substitutions and conversions. Rewrite the instructions to sound authentic for the '' @
           [CHR 0x27] @ target_style @ [CHR 0x27] @ '' style.'' @ nl @ ''    '')]"

definition stylist_system_prompt :: "string \<Rightarrow> 'f pytext" where
  "stylist_system_prompt target_style =
     [Lit (''You are the expert Technical Recipe Stylist, powered by the '' @ CONCEPTUAL_MODEL_NAME @
           ''. Your job is to take the provided context and rewrite the final, well-formatted recipe in the style of '' @
           [CHR 0x27] @ target_style @ [CHR 0x27] @ '' cuisine.'')]"

text \<open>
  \<^verbatim>\<open>run_recipe_adapter_workflow(original_recipe, target_style)\<close>. The function has no
  \<^verbatim>\<open>return\<close> statement: it prints the final draft and its value is None.
\<close>

definition run_recipe_adapter_workflow ::
    "'f pylib \<Rightarrow> 'f env \<Rightarrow> string \<Rightarrow> string \<Rightarrow> ('f, 'f pyval) eff" where
  "run_recipe_adapter_workflow lib e original_recipe target_style =
     bind (emit (Print [Lit (nl @ ''--- 1. PLANNER AGENT: Generating Substitution Map ---'')])) (\<lambda>_.
     bind (run_agent e ''Planner_Agent'' planner_system_prompt
             (planner_prompt original_recipe target_style) (Some PlanningResult_schema))
       (\<lambda>planning_result.
     bind (emit (Print [Lit (nl @ ''--- 2. TOOL EXECUTION: Running Unit Converter ---'')])) (\<lambda>_.
     bind (lift (get_conversion_list planning_result)) (\<lambda>cl.
     bind (converting lib (list_or_empty cl) []) (\<lambda>conversion_results.
     bind (lift (get_substitution_map planning_result)) (\<lambda>sm.
     bind (emit (Print [Lit (nl @ ''--- 3. STYLIST AGENT: Generating Final Recipe Draft ---'')])) (\<lambda>_.
     bind (run_agent e ''Stylist_Agent'' (stylist_system_prompt target_style)
             (stylist_prompt original_recipe
                [Json_dumps_indent2 (PList (map Substitution_model_dump sm))]
                (join [Lit nl] conversion_results) target_style)
             None)
       (\<lambda>final_recipe_draft.
     bind (emit (Print [Lit (nl @ replicate 70 (CHR ''=''))])) (\<lambda>_.
     bind (emit (Print [Lit (check_mark @ '' WORKFLOW COMPLETE: FINAL OUTPUT'')])) (\<lambda>_.
     bind (emit (Print [Lit (replicate 70 (CHR ''=''))])) (\<lambda>_.
     bind (emit (Print (str_of_result final_recipe_draft))) (\<lambda>_.
     bind (emit (Print [Lit (replicate 70 (CHR ''=''))])) (\<lambda>_.
     ret PNone)))))))))))))"

section \<open>Well-typed conversion entries\<close>

text \<open>
  The entries the tool's signature (\<^verbatim>\<open>amount: float, unit: str\<close>) is written for: a
  mapping in which, when all three keys are present, \<^verbatim>\<open>float()\<close> accepts the amount
  and the unit is a string.
\<close>

fun convertible_entry :: "'f pylib \<Rightarrow> 'f pyval \<Rightarrow> bool" where
  "convertible_entry lib (PDict d) =
     (if {''amount'', ''unit'', ''to_unit''} \<subseteq> fst ` set d
      then (case (map_of d ''amount'', map_of d ''unit'') of
              (Some a, Some (PStr u)) \<Rightarrow> \<not> isl (py_float lib a)
            | _ \<Rightarrow> False)
      else True)"
| "convertible_entry lib v = False"

section \<open>A library instance for evaluating examples\<close>

text \<open>
  Floats as exact rationals: literals denote their value, multiplication is exact,
  \<^verbatim>\<open>float(i)\<close> is \<open>i\<close>, and \<^verbatim>\<open>float(s)\<close> reads an unsigned decimal numeral without
  fraction or exponent (\<^verbatim>\<open>ValueError\<close> otherwise). Python agrees wherever the values
  involved are floats without rounding, as in the examples below; every general theorem is
  proved for an arbitrary library instead.
\<close>

definition digit_of :: "char \<Rightarrow> nat option" where
  "digit_of c = map_of (zip ''0123456789'' [0, 1, 2, 3, 4, 5, 6, 7, 8, 9]) c"

fun decimal_of :: "string \<Rightarrow> nat \<Rightarrow> nat option" where
  "decimal_of [] n = Some n"
| "decimal_of (c # s) n =
     (case digit_of c of None \<Rightarrow> None | Some d \<Rightarrow> decimal_of s (10 * n + d))"

definition example_lib :: "rat pylib" where
  "example_lib =
     \<lparr>float_literal = (\<lambda>q. q),
      float_mul = (\<lambda>x y. x * y),
      float_of_int = (\<lambda>i. Inr (of_int i)),
      float_of_str = (\<lambda>s. case (if s = [] then None else decimal_of s 0) of
                             None \<Rightarrow> Inl ValueError
                           | Some n \<Rightarrow> Inr (of_nat n))\<rparr>"




definition null_amount_plan :: "rat PlanningResult" where
  "null_amount_plan =
     \<lparr>conversion_list =
        PList [PDict [(''amount'', PNone), (''unit'', PStr ''cups''),
                      (''to_unit'', PStr ''grams'')]],
      substitution_map = []\<rparr>"

definition null_amount_client :: "rat client" where
  "null_amount_client kwargs =
     (if ''response_schema'' \<in> fst ` set (config kwargs)
      then Inr \<lparr>response_text = ''{}'', parsed = Some null_amount_plan\<rparr>
      else Inr \<lparr>response_text = ''Styled recipe'', parsed = None\<rparr>)"

definition null_amount_env :: "rat env" where
  "null_amount_env = \<lparr>client = null_amount_client, API_MODEL_NAME = ''gemini-2.5-flash''\<rparr>"



definition rejecting_genai_Client :: "string \<Rightarrow> exn + rat client" where
  "rejecting_genai_Client api_key = Inl (LibraryError ''ClientError'')"

section \<open>Laws of sequencing\<close>

lemma bind_Inl: "bind (t, Inl e) k = (t, Inl e)"
  by (simp add: bind_def)

lemma bind_Inr: "bind (t, Inr x) k = (t @ fst (k x), snd (k x))"
  by (simp add: bind_def split: prod.splits)

lemma bind_ret: "bind (ret x) k = k x"
  by (simp add: bind_def ret_def)

lemma bind_emit: "bind (emit ev) k = (ev # fst (k ()), snd (k ()))"
  by (simp add: bind_def emit_def split: prod.splits)

lemma bind_lift_Inl: "bind (lift (Inl e)) k = ([], Inl e)"
  by (simp add: bind_def lift_def)

lemma bind_lift_Inr: "bind (lift (Inr x)) k = k x"
  by (simp add: bind_def lift_def)

lemmas bind_simps = bind_Inl bind_Inr bind_ret bind_emit bind_lift_Inl bind_lift_Inr

lemma bind_assoc: "bind (bind m f) g = bind m (\<lambda>x. bind (f x) g)"
  by (cases m; rename_tac t r; case_tac r) (auto simp: bind_def split: prod.splits sum.splits)

text \<open>Every event of a first step is an event of the sequence; an agent call is one request.\<close>

lemma in_fst_bind: "x \<in> set (fst m) \<Longrightarrow> x \<in> set (fst (bind m k))"
  by (cases m; rename_tac t r; case_tac r) (simp_all add: bind_simps)

lemma fst_run_agent:
  "fst (run_agent e agent_name sp pr sch) = [Generate_content (agent_request e agent_name sp pr sch)]"
  by (cases "client e (agent_request e agent_name sp pr sch)")
    (simp_all add: run_agent_def generate_content_def bind_simps ret_def)

text \<open>The loop over a concatenation runs the first part, then the second on its result.\<close>

lemma converting_append:
  "converting lib (xs @ ys) rs = bind (converting lib xs rs) (converting lib ys)"
proof (induction xs arbitrary: rs)
  case Nil
  show ?case by (simp add: bind_ret)
next
  case (Cons x xs)
  have "converting lib (xs @ ys) = (\<lambda>r. bind (converting lib xs r) (converting lib ys))"
    by (rule ext) (rule Cons.IH)
  then show ?case by (simp add: bind_assoc)
qed

lemma has_all_keys_dict:
  "has_all_keys (PDict d) = Inr ({''amount'', ''unit'', ''to_unit''} \<subseteq> fst ` set d)"
  by (simp add: has_all_keys_def)

section \<open>The unit converter tool: known and unknown units\<close>

text \<open>
  Claim C4. For every amount and every unit string whose lower-cased form is \<open>cups\<close> or
  \<open>cup\<close>, the tool announces the conversion and returns the float product of the amount
  and the literal 120.0. The result is a function of the amount and the unit alone.
\<close>

theorem unit_converter_tool_known_unit:
  assumes "str_lower unit \<in> {''cups'', ''cup''}"
  shows "unit_converter_tool lib amount (PStr unit) =
           ([tool_announcement amount (PStr unit)],
            Inr (float_mul lib amount (float_literal lib 120)))"
  using assms by (auto simp add: unit_converter_tool_def bind_simps ret_def)

theorem unit_converter_tool_known_unit_witness:
  "str_lower ''Cups'' \<in> {''cups'', ''cup''} \<and>
   unit_converter_tool example_lib 2 (PStr ''Cups'') =
     ([tool_announcement 2 (PStr ''Cups'')], Inr 240)"
  using unit_converter_tool_known_unit [of "''Cups''" example_lib 2]
  by (simp add: str_lower_def lower_char_def example_lib_def)

text \<open>
  Claim C5. For every unit string whose lower-cased form is neither \<open>cups\<close> nor \<open>cup\<close>,
  the tool returns the amount it was given, whatever the amount is (zero and negative
  amounts included).
\<close>

theorem unit_converter_tool_unknown_unit:
  assumes "str_lower unit \<notin> {''cups'', ''cup''}"
  shows "unit_converter_tool lib amount (PStr unit) =
           ([tool_announcement amount (PStr unit)], Inr amount)"
  using assms by (auto simp add: unit_converter_tool_def bind_simps ret_def)

theorem unit_converter_tool_unknown_unit_witness:
  "str_lower ''grams'' \<notin> {''cups'', ''cup''} \<and>
   snd (unit_converter_tool example_lib (- 3) (PStr ''grams'')) = Inr (- 3) \<and>
   snd (unit_converter_tool example_lib 0 (PStr ''grams'')) = Inr 0"
  using unit_converter_tool_unknown_unit [of "''grams''" example_lib "- 3"]
    unit_converter_tool_unknown_unit [of "''grams''" example_lib 0]
  by (simp add: str_lower_def lower_char_def)

section \<open>The converting stage\<close>

text \<open>
  Claim C6, as the code has it. An entry on which the key test of line 144 is false is
  skipped: the loop body prints nothing (the tool is not called), records no note and
  raises nothing, and the whole stage behaves as if the entry were not in the list. Every
  mapping without one of the keys \<open>amount\<close>, \<open>unit\<close>, \<open>to_unit\<close> is such an entry.
\<close>

theorem missing_key_entry_skipped:
  "(has_all_keys conv = Inr False \<longrightarrow>
      convert_entry lib conv rs = ([], Inr rs) \<and>
      converting lib (xs @ conv # ys) rs = converting lib (xs @ ys) rs) \<and>
   (\<not> {''amount'', ''unit'', ''to_unit''} \<subseteq> fst ` set d \<longrightarrow>
      has_all_keys (PDict d) = Inr False \<and>
      convert_entry lib (PDict d) rs = ([], Inr rs) \<and>
      converting lib (xs @ PDict d # ys) rs = converting lib (xs @ ys) rs)"
proof -
  have skip: "convert_entry lib c rs = ([], Inr rs) \<and>
      converting lib (xs @ c # ys) rs = converting lib (xs @ ys) rs"
    if c: "has_all_keys c = Inr False" for c
  proof -
    have step: "convert_entry lib c rs' = ret rs'" for rs'
      by (simp add: convert_entry_def c bind_simps)
    have "converting lib (c # ys) rs' = converting lib ys rs'" for rs'
      by (simp add: step bind_ret)
    then have "converting lib (c # ys) = converting lib ys"
      by (rule ext)
    then show ?thesis
      by (simp add: converting_append step ret_def)
  qed
  have "has_all_keys (PDict d) = Inr False"
    if "\<not> {''amount'', ''unit'', ''to_unit''} \<subseteq> fst ` set d"
    using that by (simp add: has_all_keys_dict)
  with skip show ?thesis
    by blast
qed

theorem missing_key_entry_skipped_witness:
  "\<not> {''amount'', ''unit'', ''to_unit''} \<subseteq>
       fst ` set [(''amount'', PFloat 1), (''unit'', PStr ''cups'')] \<and>
   convert_entry example_lib (PDict [(''amount'', PFloat 1), (''unit'', PStr ''cups'')]) [] =
     ([], Inr []) \<and>
   has_all_keys (PList [PStr ''amount'', PInt 2] :: rat pyval) = Inr False \<and>
   convert_entry example_lib (PList [PStr ''amount'', PInt 2]) [] = ([], Inr []) \<and>
   converting example_lib
     [PDict [(''amount'', PFloat 2), (''unit'', PStr ''cups''), (''to_unit'', PStr ''grams'')],
      PDict [(''amount'', PFloat 1), (''unit'', PStr ''cups'')]] [] =
   ([tool_announcement 2 (PStr ''cups'')],
    Inr [note_text (PFloat 2) (PStr ''cups'') 240 (PStr ''grams'')])"
proof -
  have k: "\<not> {''amount'', ''unit'', ''to_unit''} \<subseteq>
       fst ` set [(''amount'', PFloat (1::rat)), (''unit'', PStr ''cups'')]"
    by simp
  have l: "has_all_keys (PList [PStr ''amount'', PInt 2] :: rat pyval) = Inr False"
    by (simp add: has_all_keys_def)
  note w = missing_key_entry_skipped [of "PList [PStr ''amount'', PInt 2]" example_lib "[]"
      "[PDict [(''amount'', PFloat 2), (''unit'', PStr ''cups''), (''to_unit'', PStr ''grams'')]]"
      "[]" "[(''amount'', PFloat 1), (''unit'', PStr ''cups'')]"]
  from w k have "convert_entry example_lib
      (PDict [(''amount'', PFloat 1), (''unit'', PStr ''cups'')]) [] = ([], Inr [])"
    by blast
  moreover from w l have "convert_entry example_lib (PList [PStr ''amount'', PInt 2]) [] =
      ([], Inr [])"
    by blast
  moreover from w k have "converting example_lib
     ([PDict [(''amount'', PFloat 2), (''unit'', PStr ''cups''), (''to_unit'', PStr ''grams'')]] @
      PDict [(''amount'', PFloat 1), (''unit'', PStr ''cups'')] # []) [] =
   converting example_lib
     ([PDict [(''amount'', PFloat 2), (''unit'', PStr ''cups''), (''to_unit'', PStr ''grams'')]] @
      []) []"
    by blast
  ultimately show ?thesis
    using k l
    by (simp add: convert_entry_def has_all_keys_dict converted_amount_of_def conversion_note_def
        unit_converter_tool_def bind_simps ret_def str_lower_def lower_char_def example_lib_def)
qed

text \<open>
  The claim as stated (every entry missing a key is skipped without aborting the run)
  fails: an entry that is no container, such as a number or None, has none of the keys,
  yet the key test itself raises \<^verbatim>\<open>TypeError\<close> on it, and the stage stops there, after
  the entries before it have been converted.
\<close>

theorem non_container_entry_aborts_counterexample:
  "has_all_keys (PInt 5 :: rat pyval) = Inl TypeError \<and>
   convert_entry example_lib (PInt 5) [] = ([], Inl TypeError) \<and>
   convert_entry example_lib PNone [] = ([], Inl TypeError) \<and>
   converting example_lib
     [PDict [(''amount'', PFloat 2), (''unit'', PStr ''cups''), (''to_unit'', PStr ''grams'')],
      PNone] [] =
     ([tool_announcement 2 (PStr ''cups'')], Inl TypeError)"
  by (simp add: convert_entry_def has_all_keys_dict has_all_keys_def converted_amount_of_def
      conversion_note_def unit_converter_tool_def bind_simps ret_def str_lower_def lower_char_def
      example_lib_def)


text \<open>A well-typed entry is converted or skipped; it never raises.\<close>

lemma convert_entry_convertible:
  assumes "convertible_entry lib c"
  shows "\<exists>t n. convert_entry lib c rs = (t, Inr (rs @ n)) \<and>
               length n = (if has_all_keys c = Inr True then 1 else 0) \<and> length t = length n"
proof (cases c)
  case (PDict d)
  show ?thesis
  proof (cases "{''amount'', ''unit'', ''to_unit''} \<subseteq> fst ` set d")
    case False
    then show ?thesis
      using PDict by (auto simp add: convert_entry_def has_all_keys_dict bind_simps ret_def)
  next
    case True
    with assms PDict obtain a u where
      a: "map_of d ''amount'' = Some a" and u: "map_of d ''unit'' = Some (PStr u)"
      and ok: "\<not> isl (py_float lib a)"
      by (auto split: option.splits pyval.splits)
    from ok obtain x where x: "py_float lib a = Inr x"
      by (cases "py_float lib a") auto
    from True obtain l where l: "map_of d ''to_unit'' = Some l"
      by (cases "map_of d ''to_unit''") (auto simp: map_of_eq_None_iff)
    show ?thesis
      using True PDict a u x l
      by (simp add: convert_entry_def has_all_keys_dict converted_amount_of_def
          conversion_note_def unit_converter_tool_def bind_simps ret_def)
  qed
qed (use assms in simp_all)


text \<open>
  Claim C2, as the code has it. The stage raises nothing when every entry of the conversion
  list is a mapping in which, whenever all three keys are present, \<^verbatim>\<open>float()\<close>
  accepts the amount and the unit is a string. It then records one note, after one tool
  call, for each entry that has all three keys, and nothing for the others.
\<close>

theorem converting_convertible_entries:
  assumes "list_all (convertible_entry lib) convs"
  shows "\<exists>t notes. converting lib convs rs = (t, Inr (rs @ notes)) \<and>
                   length notes = length (filter (\<lambda>c. has_all_keys c = Inr True) convs) \<and>
                   length t = length notes"
  using assms
proof (induction convs arbitrary: rs)
  case Nil
  then show ?case by (simp add: ret_def)
next
  case (Cons c convs)
  from Cons.prems have c: "convertible_entry lib c" and cs: "list_all (convertible_entry lib) convs"
    by simp_all
  from convert_entry_convertible [OF c, of rs] obtain t n where
    step: "convert_entry lib c rs = (t, Inr (rs @ n))"
      "length n = (if has_all_keys c = Inr True then 1 else 0)" "length t = length n"
    by blast
  from Cons.IH [OF cs, of "rs @ n"] obtain t' ns where
    rest: "converting lib convs (rs @ n) = (t', Inr ((rs @ n) @ ns))"
      "length ns = length (filter (\<lambda>c. has_all_keys c = Inr True) convs)"
      "length t' = length ns"
    by blast
  have "converting lib (c # convs) rs = (t @ t', Inr (rs @ (n @ ns)))"
    using step(1) rest(1) by (simp add: bind_simps)
  moreover have "length (n @ ns) = length (filter (\<lambda>c. has_all_keys c = Inr True) (c # convs))"
    using step(2) rest(2) by simp
  moreover have "length (t @ t') = length (n @ ns)"
    using step(3) rest(3) by simp
  ultimately show ?case by blast
qed

theorem converting_convertible_entries_witness:
  "list_all (convertible_entry example_lib)
     [PDict [(''amount'', PFloat 2), (''unit'', PStr ''cups''), (''to_unit'', PStr ''grams'')],
      PDict [(''amount'', PStr ''3''), (''unit'', PStr ''tbsp''), (''to_unit'', PStr ''ml'')],
      PDict [(''amount'', PNone)]] \<and>
   converting example_lib
     [PDict [(''amount'', PFloat 2), (''unit'', PStr ''cups''), (''to_unit'', PStr ''grams'')],
      PDict [(''amount'', PStr ''3''), (''unit'', PStr ''tbsp''), (''to_unit'', PStr ''ml'')],
      PDict [(''amount'', PNone)]] [] =
   ([tool_announcement 2 (PStr ''cups''), tool_announcement 3 (PStr ''tbsp'')],
    Inr [note_text (PFloat 2) (PStr ''cups'') 240 (PStr ''grams''),
         note_text (PStr ''3'') (PStr ''tbsp'') 3 (PStr ''ml'')])"
  using converting_convertible_entries [of example_lib
     "[PDict [(''amount'', PFloat 2), (''unit'', PStr ''cups''), (''to_unit'', PStr ''grams'')],
      PDict [(''amount'', PStr ''3''), (''unit'', PStr ''tbsp''), (''to_unit'', PStr ''ml'')],
      PDict [(''amount'', PNone)]]" "[]"]
  by (simp add: convert_entry_def has_all_keys_dict converted_amount_of_def conversion_note_def
      unit_converter_tool_def bind_simps ret_def str_lower_def lower_char_def example_lib_def
      digit_of_def)


text \<open>
  The claim as stated (no error for arbitrary entry contents) fails: an amount of None
  makes \<^verbatim>\<open>float()\<close> raise \<^verbatim>\<open>TypeError\<close>, a unit that is no string makes
  \<^verbatim>\<open>unit.lower()\<close> raise \<^verbatim>\<open>AttributeError\<close> after the tool has announced itself,
  an entry that is a number makes the key test raise \<^verbatim>\<open>TypeError\<close>; and a run whose
  Planner answered with the first of these entries aborts before the Stylist is called.
\<close>

theorem converting_raises_counterexample:
  "converting example_lib
     [PDict [(''amount'', PNone), (''unit'', PStr ''cups''), (''to_unit'', PStr ''grams'')]] [] =
     ([], Inl TypeError) \<and>
   converting example_lib
     [PDict [(''amount'', PFloat 2), (''unit'', PInt 5), (''to_unit'', PStr ''grams'')]] [] =
     ([tool_announcement 2 (PInt 5)], Inl AttributeError) \<and>
   converting example_lib [PInt 5] [] = ([], Inl TypeError) \<and>
   run_recipe_adapter_workflow example_lib null_amount_env ''1 cup milk'' ''Vegan'' =
     ([Print [Lit (nl @ ''--- 1. PLANNER AGENT: Generating Substitution Map ---'')],
       Generate_content (agent_request null_amount_env ''Planner_Agent'' planner_system_prompt
         (planner_prompt ''1 cup milk'' ''Vegan'') (Some PlanningResult_schema)),
       Print [Lit (nl @ ''--- 2. TOOL EXECUTION: Running Unit Converter ---'')]],
      Inl TypeError)"
  by (simp add: run_recipe_adapter_workflow_def run_agent_def generate_content_def
      null_amount_env_def null_amount_client_def null_amount_plan_def agent_request_def
      convert_entry_def has_all_keys_dict has_all_keys_def converted_amount_of_def
      conversion_note_def unit_converter_tool_def bind_simps ret_def example_lib_def)

section \<open>Runs of the workflow\<close>

text \<open>The run with the mock client, event by event.\<close>

lemma mock_converting:
  "converting lib (list_or_empty (conversion_list (mock_data lib))) [] =
     ([tool_announcement (float_literal lib 2) (PStr ''cups'')],
      Inr [note_text (PFloat (float_literal lib 2)) (PStr ''cups'')
             (float_mul lib (float_literal lib 2) (float_literal lib 120)) (PStr ''grams'')])"
  by (simp add: mock_data_def convert_entry_def has_all_keys_dict converted_amount_of_def
      conversion_note_def unit_converter_tool_def bind_simps ret_def str_lower_def lower_char_def)

lemma mock_workflow_run:
  "run_recipe_adapter_workflow lib (mock_env lib) original_recipe target_style =
     ([Print [Lit (nl @ ''--- 1. PLANNER AGENT: Generating Substitution Map ---'')],
       Generate_content (agent_request (mock_env lib) ''Planner_Agent'' planner_system_prompt
         (planner_prompt original_recipe target_style) (Some PlanningResult_schema)),
       Print [Lit (nl @ ''--- 2. TOOL EXECUTION: Running Unit Converter ---'')],
       tool_announcement (float_literal lib 2) (PStr ''cups''),
       Print [Lit (nl @ ''--- 3. STYLIST AGENT: Generating Final Recipe Draft ---'')],
       Generate_content (agent_request (mock_env lib) ''Stylist_Agent''
         (stylist_system_prompt target_style)
         (stylist_prompt original_recipe
            [Json_dumps_indent2 (PList (map Substitution_model_dump (substitution_map (mock_data lib))))]
            (note_text (PFloat (float_literal lib 2)) (PStr ''cups'')
               (float_mul lib (float_literal lib 2) (float_literal lib 120)) (PStr ''grams''))
            target_style)
         None),
       Print [Lit (nl @ replicate 70 (CHR ''=''))],
       Print [Lit (check_mark @ '' WORKFLOW COMPLETE: FINAL OUTPUT'')],
       Print [Lit (replicate 70 (CHR ''=''))],
       Print [Lit ''[MOCK OUTPUT: Final Recipe Text]''],
       Print [Lit (replicate 70 (CHR ''=''))]],
      Inr PNone)"
proof -
  have planner: "run_agent (mock_env lib) ''Planner_Agent'' planner_system_prompt
         (planner_prompt original_recipe target_style) (Some PlanningResult_schema) =
       ([Generate_content (agent_request (mock_env lib) ''Planner_Agent'' planner_system_prompt
         (planner_prompt original_recipe target_style) (Some PlanningResult_schema))],
        Inr (Structured (Some (mock_data lib))))"
    by (simp add: run_agent_def generate_content_def bind_simps ret_def mock_env_def MockClient_def
        MockModels_generate_content_def agent_request_def)
  have stylist: "run_agent (mock_env lib) ''Stylist_Agent'' sp p None =
       ([Generate_content (agent_request (mock_env lib) ''Stylist_Agent'' sp p None)],
        Inr (Text_result ''[MOCK OUTPUT: Final Recipe Text]''))" for sp p
    by (simp add: run_agent_def generate_content_def bind_simps ret_def mock_env_def MockClient_def
        MockModels_generate_content_def agent_request_def)
  show ?thesis
    unfolding run_recipe_adapter_workflow_def
    by (simp add: planner stylist mock_converting bind_simps ret_def)
qed



text \<open>
  Claim C1, as the code has it. With the mock client, for every recipe and style, the run
  raises nothing and reaches its end; the last thing it does is print, under the final
  banner, the text of the response to the Stylist's schema-free request, which is the
  non-empty placeholder and not the Planner's structured plan. The function prints this
  text; the value it returns is None.
\<close>

theorem mock_run_done:
  "snd (run_recipe_adapter_workflow lib (mock_env lib) original_recipe target_style) = Inr PNone \<and>
   (\<exists>pre stylist_request.
      fst (run_recipe_adapter_workflow lib (mock_env lib) original_recipe target_style) =
        pre @ [Generate_content stylist_request,
               Print [Lit (nl @ replicate 70 (CHR ''=''))],
               Print [Lit (check_mark @ '' WORKFLOW COMPLETE: FINAL OUTPUT'')],
               Print [Lit (replicate 70 (CHR ''=''))],
               Print [Lit ''[MOCK OUTPUT: Final Recipe Text]''],
               Print [Lit (replicate 70 (CHR ''=''))]] \<and>
      config stylist_request = [] \<and>
      client (mock_env lib) stylist_request =
        Inr \<lparr>response_text = ''[MOCK OUTPUT: Final Recipe Text]'', parsed = None\<rparr>) \<and>
   ''[MOCK OUTPUT: Final Recipe Text]'' \<noteq> []"
  apply (simp add: mock_workflow_run)
  apply (simp add: agent_request_def mock_env_def MockClient_def MockModels_generate_content_def)
  done


text \<open>
  The claim as stated (the operation returns the final text as a non-empty string) fails:
  the function has no return statement, so a caller receives None.
\<close>

theorem workflow_returns_None_counterexample:
  "snd (run_recipe_adapter_workflow example_lib (mock_env example_lib)
          ''2 cups sour cream, 1 cup beef broth'' ''Vegan'') = Inr PNone"
  by (simp add: mock_workflow_run)






text \<open>
  Claim C8. When a non-empty key is present and the provider's constructor raises, the
  initialisation catches the exception, reports it on the console and selects the mock
  client and the mock model name; a run with the selected client then raises nothing and
  prints the final recipe text.
\<close>

theorem rejected_credential_falls_back:
  assumes "k \<noteq> []" and "genai_Client k = Inl err"
  shows "init_client genai_Client lib (Some k) =
           ([Print [Lit (cross_mark @
               '' API KEY VALIDATION ERROR. Client failed to initialize. Using Mock Mode. Details: ''),
               Fmt_exn err]],
            mock_env lib) \<and>
         snd (run_recipe_adapter_workflow lib (snd (init_client genai_Client lib (Some k)))
                original_recipe target_style) = Inr PNone \<and>
         (\<exists>pre. fst (run_recipe_adapter_workflow lib (snd (init_client genai_Client lib (Some k)))
                original_recipe target_style) =
            pre @ [Print [Lit (check_mark @ '' WORKFLOW COMPLETE: FINAL OUTPUT'')],
                   Print [Lit (replicate 70 (CHR ''=''))],
                   Print [Lit ''[MOCK OUTPUT: Final Recipe Text]''],
                   Print [Lit (replicate 70 (CHR ''=''))]])"
proof -
  have init: "init_client genai_Client lib (Some k) =
           ([Print [Lit (cross_mark @
               '' API KEY VALIDATION ERROR. Client failed to initialize. Using Mock Mode. Details: ''),
               Fmt_exn err]],
            mock_env lib)"
    using assms by (simp add: init_client_def)
  show ?thesis
    unfolding init by (simp add: mock_workflow_run)
qed

theorem rejected_credential_falls_back_witness:
  "''bad-key'' \<noteq> [] \<and> rejecting_genai_Client ''bad-key'' = Inl (LibraryError ''ClientError'') \<and>
   snd (init_client rejecting_genai_Client example_lib (Some ''bad-key'')) = mock_env example_lib \<and>
   snd (run_recipe_adapter_workflow example_lib
          (snd (init_client rejecting_genai_Client example_lib (Some ''bad-key'')))
          ''1 cup milk'' ''Vegan'') = Inr PNone"
proof -
  have k: "''bad-key'' \<noteq> []"
    by simp
  have r: "rejecting_genai_Client ''bad-key'' = Inl (LibraryError ''ClientError'')"
    by (simp add: rejecting_genai_Client_def)
  note w = rejected_credential_falls_back [of "''bad-key''" rejecting_genai_Client
      "LibraryError ''ClientError''" example_lib "''1 cup milk''" "''Vegan''", OF k r]
  from w have "snd (init_client rejecting_genai_Client example_lib (Some ''bad-key'')) =
      mock_env example_lib"
    by simp
  moreover from w have "snd (run_recipe_adapter_workflow example_lib
          (snd (init_client rejecting_genai_Client example_lib (Some ''bad-key'')))
          ''1 cup milk'' ''Vegan'') = Inr PNone"
    by blast
  ultimately show ?thesis
    using k r by blast
qed


section \<open>The structured schema\<close>

text \<open>Dumping a value of either model and validating the dump gives the value back.\<close>

lemma Substitution_roundtrip:
  "Substitution_model_validate (Substitution_model_dump s) = Inr s"
  by (simp add: Substitution_model_dump_def)

lemma validate_all_dump:
  "validate_all (map Substitution_model_dump ss) = Inr ss"
  by (induction ss) (simp_all add: Substitution_roundtrip)

lemma PlanningResult_roundtrip:
  "conversion_list p = PList cl \<Longrightarrow>
   PlanningResult_model_validate (PlanningResult_model_dump p) = Inr p"
  by (simp add: PlanningResult_model_dump_def validate_all_dump)

text \<open>
  Claim C7. For every request whose config holds a response schema, the mock client returns
  the mock plan as its parsed value; the plan's dump validates against the schema, and
  validating the dump yields the plan itself. Serialisation is taken at the level of the
  JSON value (\<^verbatim>\<open>model_dump\<close> and \<^verbatim>\<open>model_validate\<close>).
\<close>

theorem mock_structured_output_roundtrip:
  assumes "''response_schema'' \<in> fst ` set (config kwargs)"
  shows "MockClient lib kwargs =
           Inr \<lparr>response_text = ''[MOCK OUTPUT: Structured Plan Generated]'',
                parsed = Some (mock_data lib)\<rparr> \<and>
         PlanningResult_model_validate (PlanningResult_model_dump (mock_data lib)) =
           Inr (mock_data lib)"
proof -
  have "conversion_list (mock_data lib) =
      PList [PDict [(''amount'', PFloat (float_literal lib 2)), (''unit'', PStr ''cups''),
                    (''to_unit'', PStr ''grams'')]]"
    by (simp add: mock_data_def)
  then have "PlanningResult_model_validate (PlanningResult_model_dump (mock_data lib)) =
      Inr (mock_data lib)"
    by (rule PlanningResult_roundtrip)
  then show ?thesis
    using assms by (simp add: MockClient_def MockModels_generate_content_def)
qed

theorem mock_structured_output_roundtrip_witness:
  "''response_schema'' \<in> fst ` set (config (agent_request (mock_env example_lib) ''Planner_Agent''
      planner_system_prompt (planner_prompt ''1 cup milk'' ''Vegan'') (Some PlanningResult_schema))) \<and>
   parsed (MockModels_generate_content example_lib (agent_request (mock_env example_lib)
      ''Planner_Agent'' planner_system_prompt (planner_prompt ''1 cup milk'' ''Vegan'')
      (Some PlanningResult_schema))) = Some (mock_data example_lib) \<and>
   PlanningResult_model_validate (PlanningResult_model_dump (mock_data example_lib)) =
     Inr (mock_data example_lib)"
proof -
  have h: "''response_schema'' \<in> fst ` set (config (agent_request (mock_env example_lib)
      ''Planner_Agent'' planner_system_prompt (planner_prompt ''1 cup milk'' ''Vegan'')
      (Some PlanningResult_schema)))"
    by (simp add: agent_request_def)
  from mock_structured_output_roundtrip [OF h, of example_lib] h show ?thesis
    by (simp add: MockClient_def)
qed

text \<open>
  Claim C3, as the code has it. The entries of the mock plan have three non-empty string
  fields. The workflow never changes an entry: whatever entries the Planner returned are
  the ones, in the same order, whose dump the Stylist's request carries. The schema asks
  for three strings and nothing more.
\<close>

theorem substitution_entries_kept:
  "(\<forall>s \<in> set (substitution_map (mock_data lib)).
      original_ingredient s \<noteq> [] \<and> substitute s \<noteq> [] \<and> reason s \<noteq> []) \<and>
   (run_agent e ''Planner_Agent'' planner_system_prompt (planner_prompt r st)
        (Some PlanningResult_schema) = (t, Inr (Structured (Some p))) \<and>
    converting lib (list_or_empty (conversion_list p)) [] = (t', Inr ns) \<longrightarrow>
    Generate_content (agent_request e ''Stylist_Agent'' (stylist_system_prompt st)
        (stylist_prompt r
           [Json_dumps_indent2 (PList (map Substitution_model_dump (substitution_map p)))]
           (join [Lit nl] ns) st) None)
      \<in> set (fst (run_recipe_adapter_workflow lib e r st)))"
proof -
  have mock: "\<forall>s \<in> set (substitution_map (mock_data lib)).
      original_ingredient s \<noteq> [] \<and> substitute s \<noteq> [] \<and> reason s \<noteq> []"
    by (simp add: mock_data_def)
  have "Generate_content (agent_request e ''Stylist_Agent'' (stylist_system_prompt st)
        (stylist_prompt r
           [Json_dumps_indent2 (PList (map Substitution_model_dump (substitution_map p)))]
           (join [Lit nl] ns) st) None)
      \<in> set (fst (run_recipe_adapter_workflow lib e r st))"
    if pl: "run_agent e ''Planner_Agent'' planner_system_prompt (planner_prompt r st)
        (Some PlanningResult_schema) = (t, Inr (Structured (Some p)))"
      and cv: "converting lib (list_or_empty (conversion_list p)) [] = (t', Inr ns)"
    by (simp add: run_recipe_adapter_workflow_def bind_simps pl cv in_fst_bind fst_run_agent)
  with mock show ?thesis
    by blast
qed

theorem substitution_entries_kept_witness:
  "original_ingredient (hd (substitution_map (mock_data example_lib))) = ''Beef chuck'' \<and>
   Generate_content (agent_request (mock_env example_lib) ''Stylist_Agent''
      (stylist_system_prompt ''Vegan'')
      (stylist_prompt ''1 cup milk''
         [Json_dumps_indent2 (PList (map Substitution_model_dump
            (substitution_map (mock_data example_lib))))]
         (join [Lit nl] [note_text (PFloat 2) (PStr ''cups'') 240 (PStr ''grams'')]) ''Vegan'') None)
     \<in> set (fst (run_recipe_adapter_workflow example_lib (mock_env example_lib)
                   ''1 cup milk'' ''Vegan''))"
proof -
  have p: "run_agent (mock_env example_lib) ''Planner_Agent'' planner_system_prompt
        (planner_prompt ''1 cup milk'' ''Vegan'') (Some PlanningResult_schema) =
      ([Generate_content (agent_request (mock_env example_lib) ''Planner_Agent''
          planner_system_prompt (planner_prompt ''1 cup milk'' ''Vegan'')
          (Some PlanningResult_schema))],
       Inr (Structured (Some (mock_data example_lib))))"
    by (simp add: run_agent_def generate_content_def bind_simps ret_def mock_env_def MockClient_def
        MockModels_generate_content_def agent_request_def)
  have c: "converting example_lib (list_or_empty (conversion_list (mock_data example_lib))) [] =
      ([tool_announcement 2 (PStr ''cups'')],
       Inr [note_text (PFloat 2) (PStr ''cups'') 240 (PStr ''grams'')])"
    by (simp add: mock_converting) (simp add: example_lib_def)
  have "original_ingredient (hd (substitution_map (mock_data example_lib))) = ''Beef chuck''"
    by (simp add: mock_data_def)
  with substitution_entries_kept [of example_lib "mock_env example_lib" "''1 cup milk''"
      "''Vegan''" _ "mock_data example_lib" _ "[note_text (PFloat 2) (PStr ''cups'') 240 (PStr ''grams'')]"]
    p c show ?thesis
    by blast
qed

text \<open>
  The claim as stated (every entry the system produces has three non-empty fields) fails:
  the declared fields are plain \<^verbatim>\<open>str\<close>, so a Planner answer with empty strings
  validates and becomes an entry.
\<close>

theorem empty_field_validates_counterexample:
  "PlanningResult_model_validate
     (PDict [(''conversion_list'', PList []),
             (''substitution_map'',
                PList [PDict [(''original_ingredient'', PStr []), (''substitute'', PStr ''Tofu''),
                              (''reason'', PStr [])]])]) =
   Inr (\<lparr>conversion_list = PList [],
         substitution_map = [\<lparr>original_ingredient = [], substitute = ''Tofu'', reason = []\<rparr>]\<rparr>
        :: rat PlanningResult)"
  by simp

section \<open>The target unit is a label\<close>

text \<open>
  Claim C10. Two mapping entries that agree on every key but \<open>to_unit\<close>, both having
  that key, make the same tool call with the same converted amount or the same exception;
  the loop body makes the same console output for both, and either skips both, or fails
  on both alike, or records for each a note that differs from the other's only in the
  target unit it names.
\<close>

theorem to_unit_only_labels:
  assumes agree: "\<forall>k. k \<noteq> ''to_unit'' \<longrightarrow> map_of d1 k = map_of d2 k"
    and t1: "map_of d1 ''to_unit'' = Some t1"
    and t2: "map_of d2 ''to_unit'' = Some t2"
  shows "converted_amount_of lib (PDict d1) = converted_amount_of lib (PDict d2) \<and>
         (case convert_entry lib (PDict d1) rs of
            (tr, Inl e) \<Rightarrow> convert_entry lib (PDict d2) rs = (tr, Inl e)
          | (tr, Inr rs1) \<Rightarrow>
              (rs1 = rs \<and> convert_entry lib (PDict d2) rs = (tr, Inr rs)) \<or>
              (\<exists>a u x. rs1 = rs @ [note_text a u x t1] \<and>
                 convert_entry lib (PDict d2) rs = (tr, Inr (rs @ [note_text a u x t2]))))"
proof -
  have am: "map_of d1 ''amount'' = map_of d2 ''amount''"
    and un: "map_of d1 ''unit'' = map_of d2 ''unit''"
    using agree by simp_all
  have conv: "converted_amount_of lib (PDict d1) = converted_amount_of lib (PDict d2)"
    by (simp add: converted_amount_of_def am un)
  have keys: "k \<in> fst ` set d1 \<longleftrightarrow> k \<in> fst ` set d2" for k
  proof (cases "k = ''to_unit''")
    case True
    then show ?thesis
      using t1 t2 by (metis map_of_eq_None_iff option.distinct(1))
  next
    case False
    then have "map_of d1 k = map_of d2 k" using agree by simp
    then show ?thesis by (metis map_of_eq_None_iff)
  qed
  have hk: "has_all_keys (PDict d1) = has_all_keys (PDict d2)"
    by (simp add: has_all_keys_dict keys)
  show ?thesis
  proof (cases "{''amount'', ''unit'', ''to_unit''} \<subseteq> fst ` set d1")
    case False
    then have "convert_entry lib (PDict d1) rs = ([], Inr rs)"
      and "convert_entry lib (PDict d2) rs = ([], Inr rs)"
      using hk by (auto simp add: convert_entry_def has_all_keys_dict bind_simps ret_def)
    then show ?thesis using conv by simp
  next
    case True
    then obtain a u where a: "map_of d1 ''amount'' = Some a" and u: "map_of d1 ''unit'' = Some u"
      by (metis insert_subset map_of_eq_None_iff not_Some_eq)
    have a2: "map_of d2 ''amount'' = Some a" and u2: "map_of d2 ''unit'' = Some u"
      using a u am un by simp_all
    have True2: "{''amount'', ''unit'', ''to_unit''} \<subseteq> fst ` set d2"
      using True keys by auto
    obtain tr r where c: "converted_amount_of lib (PDict d2) = (tr, r)"
      by (cases "converted_amount_of lib (PDict d2)")
    show ?thesis
    proof (cases r)
      case (Inl e)
      then show ?thesis
        using conv c True True2
        by (simp add: convert_entry_def has_all_keys_dict bind_simps)
    next
      case (Inr x)
      then show ?thesis
        using conv c True True2 a u a2 u2 t1 t2
        by (simp add: convert_entry_def has_all_keys_dict conversion_note_def bind_simps ret_def)
          blast
    qed
  qed
qed


theorem to_unit_only_labels_witness:
  "converted_amount_of example_lib
     (PDict [(''amount'', PFloat 2), (''unit'', PStr ''cups''), (''to_unit'', PStr ''grams'')]) =
   converted_amount_of example_lib
     (PDict [(''amount'', PFloat 2), (''unit'', PStr ''cups''), (''to_unit'', PStr ''ounces'')]) \<and>
   convert_entry example_lib
     (PDict [(''amount'', PFloat 2), (''unit'', PStr ''cups''), (''to_unit'', PStr ''grams'')]) [] =
     ([tool_announcement 2 (PStr ''cups'')],
      Inr [note_text (PFloat 2) (PStr ''cups'') 240 (PStr ''grams'')]) \<and>
   convert_entry example_lib
     (PDict [(''amount'', PFloat 2), (''unit'', PStr ''cups''), (''to_unit'', PStr ''ounces'')]) [] =
     ([tool_announcement 2 (PStr ''cups'')],
      Inr [note_text (PFloat 2) (PStr ''cups'') 240 (PStr ''ounces'')])"
proof -
  have agree: "\<forall>k. k \<noteq> ''to_unit'' \<longrightarrow>
      map_of [(''amount'', PFloat (2::rat)), (''unit'', PStr ''cups''), (''to_unit'', PStr ''grams'')] k =
      map_of [(''amount'', PFloat 2), (''unit'', PStr ''cups''), (''to_unit'', PStr ''ounces'')] k"
    by simp
  have t1: "map_of [(''amount'', PFloat (2::rat)), (''unit'', PStr ''cups''),
      (''to_unit'', PStr ''grams'')] ''to_unit'' = Some (PStr ''grams'')"
    by simp
  have t2: "map_of [(''amount'', PFloat (2::rat)), (''unit'', PStr ''cups''),
      (''to_unit'', PStr ''ounces'')] ''to_unit'' = Some (PStr ''ounces'')"
    by simp
  from to_unit_only_labels [OF agree t1 t2, of example_lib "[]"]
  have "converted_amount_of example_lib
     (PDict [(''amount'', PFloat 2), (''unit'', PStr ''cups''), (''to_unit'', PStr ''grams'')]) =
   converted_amount_of example_lib
     (PDict [(''amount'', PFloat 2), (''unit'', PStr ''cups''), (''to_unit'', PStr ''ounces'')])"
    by blast
  then show ?thesis
    by (simp add: convert_entry_def has_all_keys_dict converted_amount_of_def conversion_note_def
        unit_converter_tool_def bind_simps ret_def str_lower_def lower_char_def example_lib_def)
qed


end
